theory Spec2Isabelle
  imports Complex_Main
begin

section \<open>Data model (types.ts)\<close>

text \<open>
  \<^verbatim>\<open>Operation = 'multiplication' | 'division'\<close>.
\<close>

datatype operation = Multiplication | Division

text \<open>
  \<^verbatim>\<open>Exercise { a, b, op, result, display?, isChallenge? }\<close>. The fields carry the
  prefix \<open>ex_\<close> (a field named \<open>a\<close> would turn the letter into a constant). The numbers
  are integers. \<open>display\<close> is only ever built by the template
  \<^verbatim>\<open>`(${table} x ${b}) + ${c}`\<close> (with the multiplication sign for \<open>x\<close>); the model keeps
  the three interpolated numbers instead of the rendered text. An absent \<open>isChallenge\<close> is \<open>False\<close>.
\<close>

record exercise =
  ex_a :: int
  ex_b :: int
  ex_op :: operation
  ex_result :: int
  ex_display :: "(int \<times> int \<times> int) option"
  ex_isChallenge :: bool

text \<open>\<^verbatim>\<open>exerciseCount: 10 | 20 | 50 | 'all'\<close>\<close>

datatype exercise_count = Count10 | Count20 | Count50 | CountAll

record userSettings =
  multiplicationTables :: "int list"
  divisionTables :: "int list"
  exerciseCount :: exercise_count

text \<open>
  \<^verbatim>\<open>MasteryData { [key: string]: number }\<close>. Every key the program uses is built as
  \<^verbatim>\<open>`${op}-${table}`\<close>, which is injective on an operation and an integer, so the
  key is modelled as that pair.
\<close>

type_synonym masteryData = "operation \<times> int \<rightharpoonup> int"

text \<open>\<^verbatim>\<open>mastery[key] || 0\<close>: a missing key reads as 0.\<close>

definition score_of :: "masteryData \<Rightarrow> operation \<times> int \<Rightarrow> int" where
  "score_of mastery key = (case mastery key of None \<Rightarrow> 0 | Some v \<Rightarrow> v)"

section \<open>generateExercise\<close>

text \<open>
  \<^verbatim>\<open>Math.random()\<close> is an explicit source: the \<open>i\<close>-th call returns \<open>rnd i\<close>, and every
  function that draws returns the index of the next draw. ECMAScript promises a value in
  \<open>[0, 1)\<close>; theorems that need it assume \<open>unit_source rnd\<close>. The drawn values are real
  numbers. The product \<^verbatim>\<open>Math.random() * totalWeight\<close>, whose exact value decides ties in
  the weighted selection, is rounded to a double as the machine does (\<open>double\<close> below). The
  products under \<^verbatim>\<open>Math.floor\<close> are taken exactly: rounding can lift such a product onto the
  next integer, which changes the operand that is drawn but not the range it is drawn from.
\<close>

type_synonym random_source = "nat \<Rightarrow> real"

definition unit_source :: "random_source \<Rightarrow> bool" where
  "unit_source rnd = (\<forall>i. 0 \<le> rnd i \<and> rnd i < 1)"

text \<open>
  \<^verbatim>\<open>
  const availableOps: Operation[] = [];
  if (settings.multiplicationTables.length > 0) availableOps.push('multiplication');
  if (settings.divisionTables.length > 0) availableOps.push('division');
  \<close>
\<close>

definition availableOps :: "userSettings \<Rightarrow> operation list" where
  "availableOps settings =
     (if multiplicationTables settings \<noteq> [] then [Multiplication] else []) @
     (if divisionTables settings \<noteq> [] then [Division] else [])"

text \<open>
  \<^verbatim>\<open>
  const weights = selectedTables.map(t => { const score = mastery[`${op}-${t}`] || 0; return 11 - score; });
  const totalWeight = weights.reduce((a, b) => a + b, 0);
  \<close>
\<close>

definition weights :: "masteryData \<Rightarrow> operation \<Rightarrow> int list \<Rightarrow> int list" where
  "weights mastery op selectedTables = map (\<lambda>t. 11 - score_of mastery (op, t)) selectedTables"

definition totalWeight :: "int list \<Rightarrow> int" where
  "totalWeight ws = foldl (+) 0 ws"

text \<open>
  \<^verbatim>\<open>
  let tableIndex = 0;
  for (let i = 0; i < weights.length; i++) {
    random -= weights[i];
    if (random <= 0) { tableIndex = i; break; }
  }
  \<close>
  \<open>walk random ws i\<close> is the loop from index \<open>i\<close> on, over the weights \<open>ws\<close> that are
  left; \<open>None\<close> when it ends without a break, and then \<open>tableIndex\<close> keeps its 0. The
  subtraction is exact here as it is on the machine: \<open>random\<close> is a double below \<open>2^53\<close> and
  the weight an integer, so a positive difference is a double again, and the loop stops at
  the first difference that is not positive.
\<close>

fun walk :: "real \<Rightarrow> int list \<Rightarrow> nat \<Rightarrow> nat option" where
  "walk random [] i = None"
| "walk random (w # ws) i =
     (let random' = random - real_of_int w
      in if random' \<le> 0 then Some i else walk random' ws (Suc i))"

definition tableIndex :: "real \<Rightarrow> int list \<Rightarrow> nat" where
  "tableIndex random ws = (case walk random ws 0 of None \<Rightarrow> 0 | Some i \<Rightarrow> i)"

text \<open>
  The multiplication branch (lines 80 to 107). \<^verbatim>\<open>score > 8 && Math.random() > 0.5\<close>
  draws its coin only when \<open>score > 8\<close>; \<open>j\<close> is the index of the draw after it.
\<close>

definition multiplicationExercise :: "int \<Rightarrow> int \<Rightarrow> random_source \<Rightarrow> nat \<Rightarrow> exercise \<times> nat" where
  "multiplicationExercise table score rnd i =
     (let challenge = (score > 8 \<and> rnd i > 0.5);
          j = (if score > 8 then i + 1 else i)
      in if challenge then
           (if rnd j > 0.5 then
              (let other = 11 + \<lfloor>rnd (j + 1) * 5\<rfloor>
               in (\<lparr>ex_a = table, ex_b = other, ex_op = Multiplication,
                    ex_result = table * other, ex_display = None, ex_isChallenge = True\<rparr>, j + 2))
            else
              (let b = \<lfloor>rnd (j + 1) * 11\<rfloor>;
                   c = 1 + \<lfloor>rnd (j + 2) * 10\<rfloor>
               in (\<lparr>ex_a = table, ex_b = b, ex_op = Multiplication,
                    ex_result = (table * b) + c, ex_display = Some (table, b, c),
                    ex_isChallenge = True\<rparr>, j + 3)))
         else if score < 3 then
           (let simple = [0, 1, 2, 5, 10];
                other = simple ! nat \<lfloor>rnd j * real (length simple)\<rfloor>;
                (a, b) = (if rnd (j + 1) > 0.5 then (table, other) else (other, table))
            in (\<lparr>ex_a = a, ex_b = b, ex_op = Multiplication,
                 ex_result = a * b, ex_display = None, ex_isChallenge = False\<rparr>, j + 2))
         else
           (let other = \<lfloor>rnd j * 11\<rfloor>;
                (a, b) = (if rnd (j + 1) > 0.5 then (table, other) else (other, table))
            in (\<lparr>ex_a = a, ex_b = b, ex_op = Multiplication,
                 ex_result = a * b, ex_display = None, ex_isChallenge = False\<rparr>, j + 2)))"

text \<open>The division branch (lines 108 to 127).\<close>

definition divisionExercise :: "int \<Rightarrow> int \<Rightarrow> random_source \<Rightarrow> nat \<Rightarrow> exercise \<times> nat" where
  "divisionExercise table score rnd i =
     (let challenge = (score > 8 \<and> rnd i > 0.5);
          j = (if score > 8 then i + 1 else i)
      in if challenge then
           (let b = 11 + \<lfloor>rnd j * 5\<rfloor>;
                a = table * b
            in (\<lparr>ex_a = a, ex_b = table, ex_op = Division,
                 ex_result = b, ex_display = None, ex_isChallenge = True\<rparr>, j + 1))
         else if score < 3 then
           (let simple = [1, 2, 5, 10];
                b = simple ! nat \<lfloor>rnd j * real (length simple)\<rfloor>;
                a = table * b
            in (\<lparr>ex_a = a, ex_b = table, ex_op = Division,
                 ex_result = b, ex_display = None, ex_isChallenge = False\<rparr>, j + 1))
         else
           (let b = \<lfloor>rnd j * 11\<rfloor>;
                a = table * b
            in (\<lparr>ex_a = a, ex_b = table, ex_op = Division,
                 ex_result = b, ex_display = None, ex_isChallenge = False\<rparr>, j + 1)))"

text \<open>
  The double nearest to a real number: IEEE 754 binary64, round to nearest, ties to even.
  \<open>binade x\<close> is the exponent \<open>e\<close> with \<open>2^e \<le> x < 2^(e+1)\<close>; a double has 53 significant
  bits, so the spacing at \<open>x\<close> is \<open>2^(e-52)\<close>, and not less than \<open>2^(-1074)\<close> (subnormal
  numbers). Overflow to infinity is left out: no product of the program comes near
  \<open>2^1024\<close>.
\<close>

function binade :: "real \<Rightarrow> int" where
  "binade x =
     (if x \<le> 0 then 0
      else if 2 \<le> x then binade (x / 2) + 1
      else if x < 1 then binade (x * 2) - 1
      else 0)"
  by pat_completeness auto
termination
proof (relation "measure (\<lambda>x. nat \<bar>\<lfloor>log 2 x\<rfloor>\<bar>)")
  show "wf (measure (\<lambda>x. nat \<bar>\<lfloor>log 2 x\<rfloor>\<bar>))" by simp
next
  fix x :: real
  assume "\<not> x \<le> 0" "2 \<le> x"
  then have l: "1 \<le> log 2 x" by (simp add: le_log_iff)
  have "log 2 (x / 2) = log 2 x - 1" using \<open>\<not> x \<le> 0\<close> by (simp add: log_divide)
  then have "\<lfloor>log 2 (x / 2)\<rfloor> = \<lfloor>log 2 x\<rfloor> - 1" by simp
  moreover have "1 \<le> \<lfloor>log 2 x\<rfloor>" using l by (simp add: le_floor_iff)
  ultimately show "(x / 2, x) \<in> measure (\<lambda>x. nat \<bar>\<lfloor>log 2 x\<rfloor>\<bar>)" by simp
next
  fix x :: real
  assume "\<not> x \<le> 0" "\<not> 2 \<le> x" "x < 1"
  then have l: "log 2 x < 0" by simp
  have "log 2 (x * 2) = log 2 x + 1" using \<open>\<not> x \<le> 0\<close> by (simp add: log_mult)
  then have "\<lfloor>log 2 (x * 2)\<rfloor> = \<lfloor>log 2 x\<rfloor> + 1" by simp
  moreover have "\<lfloor>log 2 x\<rfloor> \<le> - 1" using l by (simp add: floor_le_iff)
  ultimately show "(x * 2, x) \<in> measure (\<lambda>x. nat \<bar>\<lfloor>log 2 x\<rfloor>\<bar>)" by simp
qed

declare binade.simps [simp del]

definition pow2 :: "int \<Rightarrow> real" where
  "pow2 e = (if 0 \<le> e then 2 ^ nat e else 1 / 2 ^ nat (- e))"

definition roundTiesToEven :: "real \<Rightarrow> int" where
  "roundTiesToEven y =
     (let f = \<lfloor>y\<rfloor>
      in if y - real_of_int f < 1 / 2 then f
         else if 1 / 2 < y - real_of_int f then f + 1
         else if even f then f else f + 1)"

definition double :: "real \<Rightarrow> real" where
  "double x =
     (if x = 0 then 0
      else (let ulp = pow2 (max (binade \<bar>x\<bar>) (- 1022) - 52)
            in sgn x * (real_of_int (roundTiesToEven (\<bar>x\<bar> / ulp)) * ulp)))"

text \<open>
  One pass of the attempt loop up to the candidate \<open>next\<close> (lines 55 to 127): the
  operation, the weighted table, its score, and the exercise of the band.
\<close>

definition pickOp :: "userSettings \<Rightarrow> random_source \<Rightarrow> nat \<Rightarrow> operation" where
  "pickOp settings rnd i =
     availableOps settings ! nat \<lfloor>rnd i * real (length (availableOps settings))\<rfloor>"

definition selectedTables :: "userSettings \<Rightarrow> operation \<Rightarrow> int list" where
  "selectedTables settings op =
     (if op = Multiplication then multiplicationTables settings else divisionTables settings)"

definition pickTable :: "userSettings \<Rightarrow> masteryData \<Rightarrow> operation \<Rightarrow> real \<Rightarrow> int" where
  "pickTable settings mastery op r =
     (let ws = weights mastery op (selectedTables settings op);
          random = double (r * real_of_int (totalWeight ws))
      in selectedTables settings op ! tableIndex random ws)"

definition candidate :: "userSettings \<Rightarrow> masteryData \<Rightarrow> random_source \<Rightarrow> nat \<Rightarrow> exercise \<times> nat" where
  "candidate settings mastery rnd i =
     (let op = pickOp settings rnd i;
          table = pickTable settings mastery op (rnd (i + 1));
          score = score_of mastery (op, table)
      in if op = Multiplication then multiplicationExercise table score rnd (i + 2)
         else divisionExercise table score rnd (i + 2))"

text \<open>
  \<^verbatim>\<open>
  if (!previous || (next.a !== previous.a && next.b !== previous.b && next.result !== previous.result))
    return next;
  \<close>
\<close>

definition accepted :: "exercise option \<Rightarrow> exercise \<Rightarrow> bool" where
  "accepted previous next =
     (case previous of None \<Rightarrow> True
      | Some p \<Rightarrow> ex_a next \<noteq> ex_a p \<and> ex_b next \<noteq> ex_b p \<and> ex_result next \<noteq> ex_result p)"

text \<open>
  \<^verbatim>\<open>while (attempts < 20) { attempts++; ... }  return null;\<close> with the number of
  attempts that are left as the recursion argument.
\<close>

fun attemptLoop ::
  "nat \<Rightarrow> userSettings \<Rightarrow> masteryData \<Rightarrow> exercise option \<Rightarrow> random_source \<Rightarrow> nat \<Rightarrow> exercise option"
where
  "attemptLoop 0 settings mastery previous rnd i = None"
| "attemptLoop (Suc n) settings mastery previous rnd i =
     (let (next, i') = candidate settings mastery rnd i
      in if accepted previous next then Some next
         else attemptLoop n settings mastery previous rnd i')"

definition generateExercise ::
  "userSettings \<Rightarrow> masteryData \<Rightarrow> exercise option \<Rightarrow> random_source \<Rightarrow> exercise option"
where
  "generateExercise settings mastery previous rnd =
     (if availableOps settings = [] then None
      else attemptLoop 20 settings mastery previous rnd 0)"

section \<open>parseInt\<close>

text \<open>
  \<^verbatim>\<open>parseInt(answer)\<close> is the ECMAScript built-in, called with one argument. Its steps:
  strip leading white space; take a sign; with no radix given, a prefix \<^verbatim>\<open>0x\<close> or
  \<^verbatim>\<open>0X\<close> selects radix 16 and is removed, otherwise the radix is 10; \<open>Z\<close> is the longest
  prefix of digits of the radix; the result is \<^verbatim>\<open>NaN\<close> (here \<open>None\<close>) when \<open>Z\<close> is empty
  and the signed value of \<open>Z\<close> otherwise. Strings are lists of 8-bit characters, so the
  white space is the ASCII part (TAB, LF, VT, FF, CR, SP); values are exact integers (a
  double is exact up to \<open>2^53\<close>, far above any \<open>result\<close> the generator builds).
\<close>

definition isWhiteSpace :: "char \<Rightarrow> bool" where
  "isWhiteSpace c = (of_char c \<in> {9, 10, 11, 12, 13, 32 :: nat})"

definition digitValue :: "char \<Rightarrow> nat option" where
  "digitValue c =
     (let n = of_char c :: nat
      in if 48 \<le> n \<and> n \<le> 57 then Some (n - 48)
         else if 97 \<le> n \<and> n \<le> 122 then Some (n - 87)
         else if 65 \<le> n \<and> n \<le> 90 then Some (n - 55)
         else None)"

definition isRadixDigit :: "nat \<Rightarrow> char \<Rightarrow> bool" where
  "isRadixDigit R c = (case digitValue c of None \<Rightarrow> False | Some d \<Rightarrow> d < R)"

definition digitsValue :: "nat \<Rightarrow> string \<Rightarrow> nat" where
  "digitsValue R Z = foldl (\<lambda>acc c. acc * R + (case digitValue c of None \<Rightarrow> 0 | Some d \<Rightarrow> d)) 0 Z"

definition hexPrefix :: "string \<Rightarrow> bool" where
  "hexPrefix S = (take 2 S = ''0x'' \<or> take 2 S = ''0X'')"

definition parseInt :: "string \<Rightarrow> int option" where
  "parseInt inputString =
     (let S = dropWhile isWhiteSpace inputString;
          sign = (if S \<noteq> [] \<and> hd S = CHR ''-'' then - 1 else 1 :: int);
          S' = (if S \<noteq> [] \<and> (hd S = CHR ''+'' \<or> hd S = CHR ''-'') then tl S else S);
          R = (if hexPrefix S' then 16 else 10);
          S'' = (if hexPrefix S' then drop 2 S' else S');
          Z = takeWhile (isRadixDigit R) S''
      in if Z = [] then None else Some (sign * int (digitsValue R Z)))"

section \<open>The component state and its callbacks\<close>

datatype mode = Settings | Practice | Results

datatype feedback = Correct | Incorrect

text \<open>\<^verbatim>\<open>stats: { correct, total }\<close>\<close>

record stats =
  stats_correct :: int
  stats_total :: int

text \<open>
  \<open>App\<close> is a function component: each render calls it again, and the constants
  \<^verbatim>\<open>settings\<close>, \<^verbatim>\<open>mastery\<close>, \<^verbatim>\<open>currentExercise\<close>, \<^verbatim>\<open>feedback\<close> and \<^verbatim>\<open>stats\<close> of that call are
  what the callbacks created in it read. A \<open>closure\<close> holds these five values; they are
  exactly the values \<^verbatim>\<open>handleAnswer\<close> and the \<^verbatim>\<open>generateExercise\<close> it calls take from their
  scope. Both are wrapped in \<^verbatim>\<open>useCallback\<close> whose dependency lists
  (\<^verbatim>\<open>[settings, mastery]\<close> and \<^verbatim>\<open>[currentExercise, feedback, stats, generateExercise]\<close>)
  name all five, so the callbacks of a render hold the values of that render. A setter
  (\<^verbatim>\<open>setFeedback(...)\<close>) changes the state of the component, not the constants of the call
  that is running.
\<close>

record closure =
  r_settings :: userSettings
  r_mastery :: masteryData
  r_currentExercise :: "exercise option"
  r_feedback :: "feedback option"
  r_stats :: stats

text \<open>
  The state of the component: the \<^verbatim>\<open>useState\<close> cells, and the two things the callbacks
  leave behind for later: \<open>timerRef\<close>, the running interval together with the closure of the
  \<^verbatim>\<open>handleAnswer\<close> its callback calls, and \<open>timeout\<close>, the callback that \<^verbatim>\<open>handleAnswer\<close>
  hands to \<^verbatim>\<open>setTimeout(..., 1000)\<close>, as the \<^verbatim>\<open>nextStats\<close> and the closure it holds.
\<close>

record app =
  mode :: mode
  settings :: userSettings
  mastery :: masteryData
  currentExercise :: "exercise option"
  userAnswer :: string
  feedback :: "feedback option"
  stats :: stats
  history :: "(exercise \<times> bool) list"
  timeLeft :: real
  timerRef :: "closure option"
  timeout :: "(stats \<times> closure) option"

text \<open>The closure of the callbacks of the render that shows the state \<open>st\<close>.\<close>

definition render :: "app \<Rightarrow> closure" where
  "render st =
     \<lparr>r_settings = settings st, r_mastery = mastery st, r_currentExercise = currentExercise st,
      r_feedback = feedback st, r_stats = stats st\<rparr>"

text \<open>
  \<^verbatim>\<open>const isCorrect = answer !== null && parseInt(answer) === currentExercise.result;\<close>
\<close>

definition isCorrect :: "string option \<Rightarrow> exercise \<Rightarrow> bool" where
  "isCorrect answer e =
     (case answer of None \<Rightarrow> False | Some s \<Rightarrow> parseInt s = Some (ex_result e))"

text \<open>
  \<^verbatim>\<open>
  const tableKey = currentExercise.op === 'multiplication'
    ? (settings.multiplicationTables.includes(currentExercise.a) ? currentExercise.a : currentExercise.b)
    : currentExercise.b;
  \<close>
\<close>

definition tableKey :: "userSettings \<Rightarrow> exercise \<Rightarrow> int" where
  "tableKey s e =
     (if ex_op e = Multiplication
      then (if ex_a e \<in> set (multiplicationTables s) then ex_a e else ex_b e)
      else ex_b e)"

text \<open>
  \<^verbatim>\<open>
  setMastery(prev => {
    const currentScore = prev[key] || 0;
    const nextScore = isCorrect ? Math.min(10, currentScore + 1) : Math.max(0, currentScore - 1);
    return { ...prev, [key]: nextScore };
  });
  \<close>
\<close>

definition updateMastery :: "operation \<times> int \<Rightarrow> bool \<Rightarrow> masteryData \<Rightarrow> masteryData" where
  "updateMastery key ok prev =
     (let currentScore = score_of prev key;
          nextScore = (if ok then min 10 (currentScore + 1) else max 0 (currentScore - 1))
      in prev(key \<mapsto> nextScore))"

text \<open>
  \<^verbatim>\<open>handleAnswer\<close> up to the \<^verbatim>\<open>setTimeout\<close> call (lines 144 to 183). \<open>r\<close> is the closure
  of the render that created this \<^verbatim>\<open>handleAnswer\<close>; the guard, the exercise, the settings
  and \<^verbatim>\<open>stats\<close> are read from it. \<^verbatim>\<open>setMastery\<close> and \<^verbatim>\<open>setHistory\<close> are given functions of
  the previous value, so they act on the state \<open>st\<close>.
\<close>

definition handleAnswer :: "closure \<Rightarrow> string option \<Rightarrow> app \<Rightarrow> app" where
  "handleAnswer r answer st =
     (case r_currentExercise r of
        None \<Rightarrow> st
      | Some e \<Rightarrow>
          if r_feedback r \<noteq> None then st
          else
            (let ok = isCorrect answer e;
                 key = (ex_op e, tableKey (r_settings r) e);
                 nextStats = \<lparr>stats_correct = stats_correct (r_stats r) + (if ok then 1 else 0),
                              stats_total = stats_total (r_stats r) + 1\<rparr>
             in st\<lparr>timerRef := None,
                    feedback := Some (if ok then Correct else Incorrect),
                    mastery := updateMastery key ok (mastery st),
                    stats := nextStats,
                    history := history st @ [(e, ok)],
                    timeout := Some (nextStats, r)\<rparr>))"

text \<open>
  \<^verbatim>\<open>startTimer\<close>: \<^verbatim>\<open>stopTimer(); setTimeLeft(15); timerRef.current = setInterval(...)\<close>.
  Its dependency list is \<^verbatim>\<open>[stopTimer, handleAnswer]\<close>, so the interval callback calls the
  \<^verbatim>\<open>handleAnswer\<close> of the render whose \<^verbatim>\<open>startTimer\<close> was called: \<open>r\<close>.
\<close>

definition startTimer :: "closure \<Rightarrow> app \<Rightarrow> app" where
  "startTimer r st = st\<lparr>timeLeft := 15, timerRef := Some r\<rparr>"

text \<open>
  One run of the interval callback (every 50 ms while the interval is set):
  \<^verbatim>\<open>
  setTimeLeft(prev => {
    if (prev <= 0.05) { stopTimer(); handleAnswer(null); return 0; }
    return prev - 0.05;
  });
  \<close>
\<close>

definition tick :: "app \<Rightarrow> app" where
  "tick st =
     (case timerRef st of
        None \<Rightarrow> st
      | Some r \<Rightarrow>
          if timeLeft st \<le> 0.05
          then (handleAnswer r None (st\<lparr>timerRef := None\<rparr>))\<lparr>timeLeft := 0\<rparr>
          else st\<lparr>timeLeft := timeLeft st - 0.05\<rparr>)"

text \<open>
  The callback of \<^verbatim>\<open>setTimeout(..., 1000)\<close> (lines 173 to 183), run one second after
  \<^verbatim>\<open>handleAnswer\<close>. \<^verbatim>\<open>nextStats\<close>, \<^verbatim>\<open>generateExercise\<close>, \<^verbatim>\<open>currentExercise\<close> and \<^verbatim>\<open>startTimer\<close>
  are those of the \<^verbatim>\<open>handleAnswer\<close> that set it.
\<close>

definition advance :: "random_source \<Rightarrow> app \<Rightarrow> app" where
  "advance rnd st =
     (case timeout st of
        None \<Rightarrow> st
      | Some (nextStats, r) \<Rightarrow>
          if stats_total nextStats \<ge> 10
          then st\<lparr>timeout := None, mode := Results\<rparr>
          else
            (let next = generateExercise (r_settings r) (r_mastery r) (r_currentExercise r) rnd
             in startTimer r
                  (st\<lparr>timeout := None, currentExercise := next, userAnswer := [],
                      feedback := None\<rparr>)))"

text \<open>\<^verbatim>\<open>onChange={(e) => setUserAnswer(e.target.value)}\<close>\<close>

definition typeAnswer :: "string \<Rightarrow> app \<Rightarrow> app" where
  "typeAnswer s st = st\<lparr>userAnswer := s\<rparr>"

text \<open>
  \<^verbatim>\<open>handleSubmit\<close> is not memoised: the form calls the one of the render that shows \<open>st\<close>.
  \<^verbatim>\<open>if (userAnswer === '') return; handleAnswer(userAnswer);\<close>
\<close>

definition handleSubmit :: "app \<Rightarrow> app" where
  "handleSubmit st =
     (if userAnswer st = [] then st else handleAnswer (render st) (Some (userAnswer st)) st)"

text \<open>
  \<^verbatim>\<open>startPractice\<close> (lines 252 to 265), also not memoised. The \<^verbatim>\<open>alert\<close> changes nothing.
  \<^verbatim>\<open>generateExercise()\<close> and \<^verbatim>\<open>startTimer()\<close> are those of the render that shows \<open>st\<close>, the
  one in which the button was pressed.
\<close>

definition startPractice :: "random_source \<Rightarrow> app \<Rightarrow> app" where
  "startPractice rnd st =
     (if multiplicationTables (settings st) = [] \<and> divisionTables (settings st) = [] then st
      else
        (let first = generateExercise (settings st) (mastery st) None rnd
         in startTimer (render st)
              (st\<lparr>stats := \<lparr>stats_correct = 0, stats_total = 0\<rparr>, history := [],
                  currentExercise := first, mode := Practice, userAnswer := [],
                  feedback := None\<rparr>)))"

section \<open>Sessions of typed answers\<close>





section \<open>Inputs for the examples\<close>

text \<open>
  Three random sources: every draw one half; a source of period 8 under which, with the
  single multiplication table 5 and score 0, the first attempt builds \<open>5 x 1\<close> and the second
  \<open>2 x 5\<close>; and a source that leads a table with score 9 into the two-step challenge.
\<close>

definition rnd_half :: random_source where
  "rnd_half i = 1 / 2"

definition rnd_alt :: random_source where
  "rnd_alt i = (if i mod 8 = 2 then 1 / 4 else if i mod 8 = 3 then 3 / 4
                else if i mod 8 = 6 then 1 / 2 else if i mod 8 = 7 then 1 / 4 else 1 / 8)"

definition rnd_compound :: random_source where
  "rnd_compound i = (if i = 2 then 3 / 4 else 1 / 4)"

definition division_3 :: userSettings where
  "division_3 = \<lparr>multiplicationTables = [], divisionTables = [3], exerciseCount = Count10\<rparr>"

definition multiplication_5 :: userSettings where
  "multiplication_5 = \<lparr>multiplicationTables = [5], divisionTables = [], exerciseCount = Count20\<rparr>"

definition multiplication_2_5 :: userSettings where
  "multiplication_2_5 = \<lparr>multiplicationTables = [2, 5], divisionTables = [], exerciseCount = Count10\<rparr>"

definition mastered_5 :: masteryData where
  "mastered_5 = [(Multiplication, 5) \<mapsto> 9]"

definition mastered_2 :: masteryData where
  "mastered_2 = [(Multiplication, 2) \<mapsto> 9]"

text \<open>
  The component right after loading, with the stored settings \<open>cfg\<close> and no stored mastery
  (the initial values of the \<^verbatim>\<open>useState\<close> calls, lines 25 to 40).
\<close>

definition fresh :: "userSettings \<Rightarrow> app" where
  "fresh cfg =
     \<lparr>mode = Settings, settings = cfg, mastery = Map.empty, currentExercise = None,
      userAnswer = [], feedback = None, stats = \<lparr>stats_correct = 0, stats_total = 0\<rparr>,
      history = [], timeLeft = 15, timerRef = None, timeout = None\<rparr>"

definition five_times_two :: exercise where
  "five_times_two = \<lparr>ex_a = 5, ex_b = 2, ex_op = Multiplication, ex_result = 10,
     ex_display = None, ex_isChallenge = False\<rparr>"

definition five_times_zero :: exercise where
  "five_times_zero = \<lparr>ex_a = 5, ex_b = 0, ex_op = Multiplication, ex_result = 0,
     ex_display = None, ex_isChallenge = False\<rparr>"

definition six_by_three :: exercise where
  "six_by_three = \<lparr>ex_a = 6, ex_b = 3, ex_op = Division, ex_result = 2,
     ex_display = None, ex_isChallenge = False\<rparr>"


definition finished_5 :: masteryData where
  "finished_5 = [(Multiplication, 5) \<mapsto> 10]"






section \<open>Properties\<close>

lemma floor_draw_range:
  fixes r :: real
  assumes "0 \<le> r" "r < 1" "0 < n"
  shows "0 \<le> \<lfloor>r * real n\<rfloor> \<and> \<lfloor>r * real n\<rfloor> < int n"
proof -
  have "0 \<le> r * real n" using assms by simp
  moreover have "r * real n < real n" using assms by simp
  ultimately show ?thesis by (simp add: floor_less_iff)
qed

lemma floor_draw_numeral:
  fixes r :: real
  assumes "0 \<le> r" "r < 1"
  shows "0 \<le> \<lfloor>r * 5\<rfloor> \<and> \<lfloor>r * 5\<rfloor> \<le> 4" "0 \<le> \<lfloor>r * 11\<rfloor> \<and> \<lfloor>r * 11\<rfloor> \<le> 10"
    "0 \<le> \<lfloor>r * 10\<rfloor> \<and> \<lfloor>r * 10\<rfloor> \<le> 9" "0 \<le> \<lfloor>r * 4\<rfloor> \<and> \<lfloor>r * 4\<rfloor> \<le> 3"
  using floor_draw_range[OF assms, of 5] floor_draw_range[OF assms, of 11]
    floor_draw_range[OF assms, of 10] floor_draw_range[OF assms, of 4]
  by simp_all

lemma nat_floor_draw:
  fixes r :: real
  assumes "0 \<le> r" "r < 1" "xs \<noteq> []"
  shows "nat \<lfloor>r * real (length xs)\<rfloor> < length xs"
proof -
  have "0 < length xs" using assms(3) by simp
  from floor_draw_range[OF assms(1) assms(2) this] show ?thesis by linarith
qed

lemma totalWeight_sum: "totalWeight ws = sum_list ws"
proof -
  have "foldl (+) a ws = a + sum_list ws" for a :: int
    by (induction ws arbitrary: a) simp_all
  then show ?thesis by (simp add: totalWeight_def)
qed

lemma walk_Some:
  "walk random ws k = Some i \<Longrightarrow>
     k \<le> i \<and> i - k < length ws \<and>
     random - real_of_int (sum_list (take (Suc (i - k)) ws)) \<le> 0 \<and>
     (\<forall>j < i - k. random - real_of_int (sum_list (take (Suc j) ws)) > 0)"
proof (induction ws arbitrary: random k)
  case Nil
  then show ?case by simp
next
  case (Cons w ws)
  show ?case
  proof (cases "random - real_of_int w \<le> 0")
    case True
    with Cons.prems show ?thesis by simp
  next
    case False
    with Cons.prems have w: "walk (random - real_of_int w) ws (Suc k) = Some i"
      by (simp add: Let_def)
    from Cons.IH[OF w] have ih: "Suc k \<le> i" "i - Suc k < length ws"
      "random - real_of_int w - real_of_int (sum_list (take (Suc (i - Suc k)) ws)) \<le> 0"
      "\<forall>j < i - Suc k. random - real_of_int w - real_of_int (sum_list (take (Suc j) ws)) > 0"
      by auto
    have eq: "i - k = Suc (i - Suc k)" using ih(1) by simp
    have "\<forall>j < i - k. random - real_of_int (sum_list (take (Suc j) (w # ws))) > 0"
    proof (intro allI impI)
      fix j assume "j < i - k"
      show "random - real_of_int (sum_list (take (Suc j) (w # ws))) > 0"
      proof (cases j)
        case 0
        then show ?thesis using False by simp
      next
        case (Suc j')
        with \<open>j < i - k\<close> eq have "j' < i - Suc k" by simp
        with ih(4) Suc show ?thesis by (simp add: algebra_simps)
      qed
    qed
    then show ?thesis using ih eq by (simp add: algebra_simps)
  qed
qed

lemma walk_None:
  "walk random ws k = None \<Longrightarrow> ws \<noteq> [] \<Longrightarrow> random - real_of_int (sum_list ws) > 0"
proof (induction ws arbitrary: random k)
  case Nil
  then show ?case by simp
next
  case (Cons w ws)
  from Cons.prems(1) have pos: "\<not> random - real_of_int w \<le> 0"
    and rest: "walk (random - real_of_int w) ws (Suc k) = None"
    by (auto simp: Let_def split: if_splits)
  show ?case
  proof (cases "ws = []")
    case True
    with pos show ?thesis by simp
  next
    case False
    from Cons.IH[OF rest False] show ?thesis by (simp add: algebra_simps)
  qed
qed


lemma unit_sourceD: "unit_source rnd \<Longrightarrow> 0 \<le> rnd i \<and> rnd i < 1"
  by (simp add: unit_source_def)

lemma set_availableOps:
  "set (availableOps cfg) =
     {op. selectedTables cfg op \<noteq> []}"
  by (auto simp: availableOps_def selectedTables_def split: if_splits) (metis operation.exhaust)+

lemma pickOp_available:
  assumes "unit_source rnd" "availableOps cfg \<noteq> []"
  shows "pickOp cfg rnd i \<in> set (availableOps cfg)"
  unfolding pickOp_def
  using nat_floor_draw[of "rnd i" "availableOps cfg"] unit_sourceD[OF assms(1), of i] assms(2)
  by simp

lemma tableIndex_less: "ws \<noteq> [] \<Longrightarrow> tableIndex random ws < length ws"
  by (auto simp: tableIndex_def split: option.splits dest: walk_Some)

lemma pickTable_selected:
  assumes "selectedTables cfg op \<noteq> []"
  shows "pickTable cfg ms op r \<in> set (selectedTables cfg op)"
proof -
  let ?ws = "weights ms op (selectedTables cfg op)"
  have "?ws \<noteq> []" using assms by (simp add: weights_def)
  then have "tableIndex (double (r * real_of_int (totalWeight ?ws))) ?ws < length (selectedTables cfg op)"
    using tableIndex_less[of ?ws] by (simp add: weights_def)
  then show ?thesis by (simp add: pickTable_def Let_def)
qed

lemma attemptLoop_Some:
  "attemptLoop n cfg ms previous rnd i = Some e \<Longrightarrow>
     \<exists>j. e = fst (candidate cfg ms rnd j) \<and> accepted previous e"
proof (induction n arbitrary: i)
  case 0
  then show ?case by simp
next
  case (Suc n)
  obtain next' i' where c: "candidate cfg ms rnd i = (next', i')"
    by (cases "candidate cfg ms rnd i")
  show ?case
  proof (cases "accepted previous next'")
    case True
    with Suc.prems c have "e = next'" by simp
    with c True show ?thesis by (metis fst_conv)
  next
    case False
    with Suc.prems c have "attemptLoop n cfg ms previous rnd i' = Some e" by simp
    then show ?thesis by (rule Suc.IH)
  qed
qed

lemma simple_division_nth:
  fixes i :: int
  assumes "0 \<le> i" "i \<le> 3"
  shows "[1, 2, 5, 10::int] ! nat i \<in> {1, 2, 5, 10}"
proof -
  from assms have "i = 0 \<or> i = 1 \<or> i = 2 \<or> i = 3" by linarith
  then show ?thesis by (auto simp: numeral_2_eq_2 numeral_3_eq_3)
qed

lemma divisionExercise_facts:
  fixes table score :: int and i :: nat
  assumes "unit_source rnd"
  defines "e \<equiv> fst (divisionExercise table score rnd i)"
  shows "ex_op e = Division" "ex_b e = table" "ex_a e = ex_b e * ex_result e" "ex_display e = None"
    "ex_isChallenge e \<Longrightarrow> 8 < score \<and> 11 \<le> ex_result e \<and> ex_result e \<le> 15"
    "\<not> ex_isChallenge e \<Longrightarrow> score < 3 \<Longrightarrow> ex_result e \<in> {1, 2, 5, 10}"
    "\<not> ex_isChallenge e \<Longrightarrow> 3 \<le> score \<Longrightarrow> 0 \<le> ex_result e \<and> ex_result e \<le> 10"
proof -
  note u = unit_sourceD[OF assms(1)]
  note f = floor_draw_numeral[OF conjunct1[OF u] conjunct2[OF u]]
  show "ex_op e = Division" "ex_b e = table" "ex_a e = ex_b e * ex_result e" "ex_display e = None"
    by (simp_all add: e_def divisionExercise_def Let_def)
  show "ex_isChallenge e \<Longrightarrow> 8 < score \<and> 11 \<le> ex_result e \<and> ex_result e \<le> 15"
    using f(1)[of "if 8 < score then i + 1 else i"]
    by (auto simp: e_def divisionExercise_def Let_def split: if_splits)
  show "\<not> ex_isChallenge e \<Longrightarrow> score < 3 \<Longrightarrow> ex_result e \<in> {1, 2, 5, 10}"
    using f(4)[of i] simple_division_nth[of "\<lfloor>rnd i * 4\<rfloor>"]
    by (simp add: e_def divisionExercise_def Let_def)
  show "\<not> ex_isChallenge e \<Longrightarrow> 3 \<le> score \<Longrightarrow> 0 \<le> ex_result e \<and> ex_result e \<le> 10"
    using f(2)[of "if 8 < score then i + 1 else i"]
    by (auto simp: e_def divisionExercise_def Let_def split: if_splits)
qed


lemma multiplicationExercise_facts:
  fixes table score :: int and i :: nat
  assumes "unit_source rnd"
  defines "e \<equiv> fst (multiplicationExercise table score rnd i)"
  shows "ex_op e = Multiplication"
    "ex_a e = table \<or> ex_b e = table"
    "ex_display e = None \<Longrightarrow> ex_a e * ex_b e = ex_result e"
    "ex_display e = Some (t, b, c) \<Longrightarrow>
       ex_isChallenge e \<and> 8 < score \<and> t = table \<and> ex_a e = table \<and> ex_b e = b \<and>
       0 \<le> b \<and> b \<le> 10 \<and> 1 \<le> c \<and> c \<le> 10 \<and> ex_result e = (t * b) + c"
proof -
  note u = unit_sourceD[OF assms(1)]
  note f = floor_draw_numeral[OF conjunct1[OF u] conjunct2[OF u]]
  show "ex_op e = Multiplication"
    by (simp add: e_def multiplicationExercise_def Let_def split: prod.splits)
  show "ex_a e = table \<or> ex_b e = table"
    by (simp add: e_def multiplicationExercise_def Let_def split: prod.splits)
  show "ex_display e = None \<Longrightarrow> ex_a e * ex_b e = ex_result e"
    by (simp add: e_def multiplicationExercise_def Let_def split: prod.splits if_splits)
  show "ex_display e = Some (t, b, c) \<Longrightarrow>
       ex_isChallenge e \<and> 8 < score \<and> t = table \<and> ex_a e = table \<and> ex_b e = b \<and>
       0 \<le> b \<and> b \<le> 10 \<and> 1 \<le> c \<and> c \<le> 10 \<and> ex_result e = (t * b) + c"
    using f(2)[of "Suc (Suc i)"] f(3)[of "Suc (Suc (Suc i))"]
    by (auto simp: e_def multiplicationExercise_def Let_def split: prod.splits if_splits)
qed

lemma candidate_facts:
  fixes ms :: masteryData and i :: nat
  assumes "unit_source rnd" "availableOps cfg \<noteq> []"
  defines "e \<equiv> fst (candidate cfg ms rnd i)"
  shows "ex_op e = Division \<Longrightarrow>
           ex_b e \<in> set (divisionTables cfg) \<and>
           ex_b e = pickTable cfg ms Division (rnd (i + 1)) \<and>
           e = fst (divisionExercise (ex_b e) (score_of ms (Division, ex_b e)) rnd (i + 2))"
    "ex_op e = Multiplication \<Longrightarrow>
       \<exists>table \<in> set (multiplicationTables cfg).
         e = fst (multiplicationExercise table (score_of ms (Multiplication, table)) rnd (i + 2))"
proof -
  let ?op = "pickOp cfg rnd i"
  let ?t = "pickTable cfg ms ?op (rnd (i + 1))"
  have "?op \<in> set (availableOps cfg)" by (rule pickOp_available[OF assms(1,2)])
  then have ne: "selectedTables cfg ?op \<noteq> []" by (simp add: set_availableOps)
  have t: "?t \<in> set (selectedTables cfg ?op)" by (rule pickTable_selected[OF ne])
  show "ex_op e = Division \<Longrightarrow>
           ex_b e \<in> set (divisionTables cfg) \<and>
           ex_b e = pickTable cfg ms Division (rnd (i + 1)) \<and>
           e = fst (divisionExercise (ex_b e) (score_of ms (Division, ex_b e)) rnd (i + 2))"
  proof -
    assume d: "ex_op e = Division"
    have op: "?op = Division"
    proof (cases ?op)
      case Multiplication
      then have "ex_op e = Multiplication"
        using multiplicationExercise_facts(1)[OF assms(1)]
        by (simp add: e_def candidate_def Let_def)
      with d show ?thesis by simp
    qed
    then have e: "e = fst (divisionExercise ?t (score_of ms (Division, ?t)) rnd (i + 2))"
      by (simp add: e_def candidate_def Let_def)
    then have "ex_b e = ?t" using divisionExercise_facts(2)[OF assms(1)] by simp
    with e t op show ?thesis by (simp add: selectedTables_def)
  qed
  show "ex_op e = Multiplication \<Longrightarrow>
       \<exists>table \<in> set (multiplicationTables cfg).
         e = fst (multiplicationExercise table (score_of ms (Multiplication, table)) rnd (i + 2))"
  proof -
    assume m: "ex_op e = Multiplication"
    have op: "?op = Multiplication"
    proof (cases ?op)
      case Division
      then have "ex_op e = Division"
        using divisionExercise_facts(1)[OF assms(1)]
        by (simp add: e_def candidate_def Let_def)
      with m show ?thesis by simp
    qed
    then have "e = fst (multiplicationExercise ?t (score_of ms (Multiplication, ?t)) rnd (i + 2))"
      by (simp add: e_def candidate_def Let_def)
    with t op show ?thesis by (auto simp: selectedTables_def)
  qed
qed

lemma generateExercise_candidate:
  assumes "generateExercise cfg ms previous rnd = Some e"
  shows "availableOps cfg \<noteq> [] \<and>
         (\<exists>j. e = fst (candidate cfg ms rnd j) \<and> accepted previous e)"
  using assms attemptLoop_Some[of 20 cfg ms previous rnd 0 e]
  by (simp add: generateExercise_def split: if_splits)

text \<open>
  C5. A division exercise returned by \<open>generateExercise\<close> has \<open>a = b * result\<close>; its \<open>b\<close> is
  the table the weighted selection picked, a table of \<open>divisionTables\<close> and, the set holding
  no 0, not 0. With \<open>s\<close> the score of
  that table: a challenge exercise has \<open>s > 8\<close> and a quotient from 11 to 15; otherwise the
  quotient is one of 1, 2, 5, 10 when \<open>s < 3\<close>, and lies from 0 to 10 when \<open>s \<ge> 3\<close>.
\<close>

theorem division_exercise_shape:
  assumes "unit_source rnd"
    and "0 \<notin> set (divisionTables cfg)"
    and "generateExercise cfg ms previous rnd = Some e"
    and "ex_op e = Division"
  shows "ex_a e = ex_b e * ex_result e \<and>
         (\<exists>j. ex_b e = pickTable cfg ms Division (rnd (j + 1))) \<and>
         ex_b e \<in> set (divisionTables cfg) \<and> ex_b e \<noteq> 0 \<and>
         (ex_isChallenge e \<longrightarrow>
            8 < score_of ms (Division, ex_b e) \<and> 11 \<le> ex_result e \<and> ex_result e \<le> 15) \<and>
         (\<not> ex_isChallenge e \<and> score_of ms (Division, ex_b e) < 3 \<longrightarrow>
            ex_result e \<in> {1, 2, 5, 10}) \<and>
         (\<not> ex_isChallenge e \<and> 3 \<le> score_of ms (Division, ex_b e) \<longrightarrow>
            0 \<le> ex_result e \<and> ex_result e \<le> 10)"
proof -
  from generateExercise_candidate[OF assms(3)] obtain j
    where av: "availableOps cfg \<noteq> []" and e: "e = fst (candidate cfg ms rnd j)"
    by blast
  have c: "ex_op (fst (candidate cfg ms rnd j)) = Division" using assms(4) e by simp
  note cf = candidate_facts(1)[OF assms(1) av c, folded e]
  have mem: "ex_b e \<in> set (divisionTables cfg)"
    and sel: "ex_b e = pickTable cfg ms Division (rnd (j + 1))"
    and d: "e = fst (divisionExercise (ex_b e) (score_of ms (Division, ex_b e)) rnd (j + 2))"
    using cf by blast+
  from sel have picked: "\<exists>j. ex_b e = pickTable cfg ms Division (rnd (j + 1))" by blast
  from mem assms(2) have nz: "ex_b e \<noteq> 0" by metis
  note df = divisionExercise_facts[OF assms(1), of "ex_b e" "score_of ms (Division, ex_b e)" "j + 2",
      folded d]
  show ?thesis using picked mem nz df(3,5,6,7) by blast
qed

text \<open>
  C6. A multiplication exercise returned by \<open>generateExercise\<close> without a \<open>display\<close> has
  \<open>a * b = result\<close>. One with a \<open>display\<close> of \<open>(t, b, c)\<close> is a challenge, \<open>t\<close> is a table of
  \<open>multiplicationTables\<close> stored in \<open>a\<close>, \<open>b\<close> is stored in \<open>b\<close> and lies from 0 to 10, \<open>c\<close> lies
  from 1 to 10, and \<open>result = (t * b) + c\<close>.
\<close>

theorem multiplication_exercise_shape:
  assumes "unit_source rnd"
    and "generateExercise cfg ms previous rnd = Some e"
    and "ex_op e = Multiplication"
  shows "(ex_display e = None \<longrightarrow> ex_a e * ex_b e = ex_result e) \<and>
         (\<forall>t b c. ex_display e = Some (t, b, c) \<longrightarrow>
            ex_isChallenge e \<and> t \<in> set (multiplicationTables cfg) \<and>
            ex_a e = t \<and> ex_b e = b \<and> 0 \<le> b \<and> b \<le> 10 \<and> 1 \<le> c \<and> c \<le> 10 \<and>
            ex_result e = (t * b) + c)"
proof -
  from generateExercise_candidate[OF assms(2)] obtain j
    where av: "availableOps cfg \<noteq> []" and e: "e = fst (candidate cfg ms rnd j)"
    by blast
  from candidate_facts(2)[OF assms(1) av, of ms j] assms(3) e
  obtain table where mem: "table \<in> set (multiplicationTables cfg)"
    and m: "e = fst (multiplicationExercise table (score_of ms (Multiplication, table)) rnd (j + 2))"
    by auto
  note mf = multiplicationExercise_facts[OF assms(1), of table
      "score_of ms (Multiplication, table)" "j + 2", folded m]
  have "ex_display e = None \<longrightarrow> ex_a e * ex_b e = ex_result e" using mf(3) by blast
  moreover have "ex_display e = Some (t, b, c) \<longrightarrow>
            ex_isChallenge e \<and> t \<in> set (multiplicationTables cfg) \<and>
            ex_a e = t \<and> ex_b e = b \<and> 0 \<le> b \<and> b \<le> 10 \<and> 1 \<le> c \<and> c \<le> 10 \<and>
            ex_result e = (t * b) + c" for t b c
    using mf(4)[of t b c] mem by auto
  ultimately show ?thesis by blast
qed

lemma attemptLoop_Suc:
  "attemptLoop (Suc n) cfg ms previous rnd i =
     (if accepted previous (fst (candidate cfg ms rnd i))
      then Some (fst (candidate cfg ms rnd i))
      else attemptLoop n cfg ms previous rnd (snd (candidate cfg ms rnd i)))"
  by (simp add: case_prod_beta)

lemma attemptLoop_first:
  "accepted previous (fst (candidate cfg ms rnd i)) \<Longrightarrow>
   attemptLoop (Suc n) cfg ms previous rnd i = Some (fst (candidate cfg ms rnd i))"
  by (simp only: attemptLoop_Suc if_True)

lemma attemptLoop_rejected:
  assumes "\<And>j. \<not> accepted previous (fst (candidate cfg ms rnd j))"
  shows "attemptLoop n cfg ms previous rnd i = None"
proof (induction n arbitrary: i)
  case 0
  show ?case by simp
next
  case (Suc n)
  show ?case using assms[of i] Suc by (simp only: attemptLoop_Suc if_False)
qed



lemma walk_total:
  assumes "ws \<noteq> []" "random < real_of_int (sum_list ws)"
  shows "\<exists>i. walk random ws 0 = Some i"
proof (cases "walk random ws 0")
  case None
  from walk_None[OF None assms(1)] assms(2) show ?thesis by simp
next
  case (Some i)
  then show ?thesis by blast
qed

lemma sum_list_weights_pos:
  assumes "tables \<noteq> []" "\<forall>t \<in> set tables. score_of ms (op, t) \<le> 10"
  shows "0 < sum_list (weights ms op tables)"
  using assms
proof (induction tables)
  case Nil
  then show ?case by simp
next
  case (Cons t ts)
  have "0 \<le> sum_list (weights ms op ts)"
  proof (rule sum_list_nonneg)
    fix w assume "w \<in> set (weights ms op ts)"
    then obtain t' where "t' \<in> set ts" "w = 11 - score_of ms (op, t')"
      by (auto simp: weights_def)
    with Cons.prems(2) show "0 \<le> w" by fastforce
  qed
  moreover have "1 \<le> 11 - score_of ms (op, t)" using Cons.prems(2) by simp
  ultimately show ?case by (simp add: weights_def)
qed

lemma pow2_pos: "0 < pow2 e"
  by (simp add: pow2_def)

lemma pow2_Suc: "pow2 (e + 1) = 2 * pow2 e"
proof (cases "0 \<le> e")
  case True
  then show ?thesis by (simp add: pow2_def nat_add_distrib)
next
  case False
  then have "nat (- e) = Suc (nat (- (e + 1)))" by simp
  then show ?thesis using False by (auto simp: pow2_def)
qed

lemma pow2_diff: "pow2 (e - 1) = pow2 e / 2"
  using pow2_Suc[of "e - 1"] by simp

lemma binade_bounds: "0 < x \<Longrightarrow> pow2 (binade x) \<le> x \<and> x < pow2 (binade x + 1)"
proof (induction x rule: binade.induct)
  case (1 x)
  show ?case
  proof (cases "2 \<le> x")
    case True
    with "1.prems" have b: "binade x = binade (x / 2) + 1" by (subst binade.simps) simp
    from "1.IH"(1) True "1.prems" have "pow2 (binade (x / 2)) \<le> x / 2 \<and> x / 2 < pow2 (binade (x / 2) + 1)"
      by simp
    moreover have "pow2 (binade (x / 2) + 1) = 2 * pow2 (binade (x / 2))"
      "pow2 (binade (x / 2) + 1 + 1) = 2 * pow2 (binade (x / 2) + 1)"
      by (rule pow2_Suc)+
    ultimately show ?thesis unfolding b by linarith
  next
    case False
    show ?thesis
    proof (cases "x < 1")
      case True
      with False "1.prems" have b: "binade x = binade (x * 2) - 1" by (subst binade.simps) simp
      from "1.IH"(2) True False "1.prems"
      have "pow2 (binade (x * 2)) \<le> x * 2 \<and> x * 2 < pow2 (binade (x * 2) + 1)" by simp
      moreover have "pow2 (binade (x * 2) - 1) = pow2 (binade (x * 2)) / 2"
        "pow2 (binade (x * 2) - 1 + 1) = 2 * pow2 (binade (x * 2) - 1)"
        "pow2 (binade (x * 2) + 1) = 2 * pow2 (binade (x * 2))"
        by (rule pow2_diff pow2_Suc)+
      ultimately show ?thesis unfolding b by linarith
    next
      case F: False
      with False "1.prems" have b: "binade x = 0" by (subst binade.simps) simp
      show ?thesis unfolding b using F False by (simp add: pow2_def)
    qed
  qed
qed


lemma roundTiesToEven_near: "\<bar>real_of_int (roundTiesToEven y) - y\<bar> \<le> 1 / 2"
  unfolding roundTiesToEven_def Let_def by (auto split: if_splits)

lemma roundTiesToEven_nonneg: "0 \<le> y \<Longrightarrow> 0 \<le> roundTiesToEven y"
  unfolding roundTiesToEven_def Let_def by (auto split: if_splits)

lemma double_nonneg:
  assumes "0 \<le> x"
  shows "0 \<le> double x"
proof (cases "x = 0")
  case True
  then show ?thesis by (simp add: double_def)
next
  case False
  let ?u = "pow2 (max (binade \<bar>x\<bar>) (- 1022) - 52)"
  have u: "0 < ?u" by (rule pow2_pos)
  with assms have "0 \<le> \<bar>x\<bar> / ?u" by simp
  then have "0 \<le> roundTiesToEven (\<bar>x\<bar> / ?u)" by (rule roundTiesToEven_nonneg)
  with u have "0 \<le> real_of_int (roundTiesToEven (\<bar>x\<bar> / ?u)) * ?u" by simp
  with assms False show ?thesis by (simp add: double_def Let_def)
qed

lemma double_near:
  assumes "0 < x"
  shows "double x \<le> x + pow2 (max (binade x) (- 1022) - 52) / 2"
proof -
  let ?u = "pow2 (max (binade x) (- 1022) - 52)"
  have u: "0 < ?u" by (rule pow2_pos)
  have d: "double x = real_of_int (roundTiesToEven (x / ?u)) * ?u"
    using assms by (simp add: double_def Let_def)
  have "real_of_int (roundTiesToEven (x / ?u)) \<le> x / ?u + 1 / 2"
    using roundTiesToEven_near[of "x / ?u"] by linarith
  then have "real_of_int (roundTiesToEven (x / ?u)) * ?u \<le> (x / ?u + 1 / 2) * ?u"
    using u by (simp only: mult_le_cancel_right_pos)
  also have "(x / ?u + 1 / 2) * ?u = x + ?u / 2" using u by (simp add: field_simps)
  finally show ?thesis by (simp only: d)
qed

lemma pow2_52: "pow2 (e - 52) = pow2 e / 2 ^ 52"
proof -
  have "pow2 (e - int n) = pow2 e / 2 ^ n" for n
  proof (induction n)
    case 0
    show ?case by simp
  next
    case (Suc n)
    have "pow2 (e - int (Suc n)) = pow2 (e - int n - 1)" by (simp add: algebra_simps)
    also have "\<dots> = pow2 (e - int n) / 2" by (rule pow2_diff)
    finally show ?case by (simp add: Suc)
  qed
  from this[of 52] show ?thesis by simp
qed

lemma double_below:
  assumes "0 \<le> r" "r \<le> 1 - 1 / 2 ^ 53" "1 \<le> w"
  shows "double (r * w) < w"
proof (cases "r * w = 0")
  case True
  then show ?thesis using assms(3) by (simp add: double_def)
next
  case False
  with assms(1,3) have x: "0 < r * w" by (simp add: less_le)
  let ?x = "r * w"
  note b = binade_bounds[OF x]
  note n = double_near[OF x]
  show ?thesis
  proof (cases "- 1022 \<le> binade ?x")
    case True
    then have m: "max (binade ?x) (- 1022) = binade ?x" by simp
    have "pow2 (binade ?x - 52) / 2 \<le> ?x / 2 ^ 53"
      using b by (simp add: pow2_52)
    with n have "double ?x \<le> ?x * (1 + 1 / 2 ^ 53)" by (simp add: m algebra_simps)
    also have "?x \<le> w * (1 - 1 / 2 ^ 53)"
      using assms(2,3) by (simp add: mult.commute mult_left_mono)
    then have "?x * (1 + 1 / 2 ^ 53) \<le> w * (1 - 1 / 2 ^ 53) * (1 + 1 / 2 ^ 53)"
      by (simp add: mult_right_mono)
    also have "w * (1 - 1 / 2 ^ 53) * (1 + 1 / 2 ^ 53) < w"
      using assms(3) by (simp add: field_simps)
    finally show ?thesis .
  next
    case False
    then have m: "max (binade ?x) (- 1022) = - 1022" and e: "binade ?x + 1 \<le> - 1022" by simp_all
    have "pow2 (binade ?x + 1) \<le> 1 / 2"
    proof -
      have "nat (- (binade ?x + 1)) \<ge> 1" using e by simp
      then have "(2::real) ^ nat (- (binade ?x + 1)) \<ge> 2 ^ 1" by (intro power_increasing) simp_all
      then show ?thesis using e by (simp add: pow2_def field_simps)
    qed
    with b have "?x < 1 / 2" by linarith
    moreover have "pow2 (- 1022 - 52) / 2 \<le> 1 / 2"
      by (simp add: pow2_def field_simps) 
    ultimately have "double ?x < 1" using n by (simp add: m)
    with assms(3) show ?thesis by simp
  qed
qed

text \<open>
  C4. For a non-empty table list, scores from 0 to 10 and a draw \<open>r\<close> from 0 up to the
  largest double below 1: the weight of the \<open>i\<close>-th table is 11 minus its score and lies from
  1 to 11; \<open>random\<close>, the double product of the draw and the total weight, lies in
  \<open>[0, totalWeight)\<close>; the index \<open>k\<close> that is selected is the first at which \<open>random\<close> minus the
  weights up to and including it is at most 0 (all earlier remainders are positive, so a
  remainder of exactly 0 selects the earlier table), and the table picked is the \<open>k\<close>-th of
  the list. How the draw is distributed is not part of the model.
\<close>

theorem weighted_table_selection:
  fixes cfg :: userSettings and ms :: masteryData and r :: real and op :: operation
  defines "tables \<equiv> selectedTables cfg op"
  defines "ws \<equiv> weights ms op tables"
  defines "random \<equiv> double (r * real_of_int (totalWeight ws))"
  defines "k \<equiv> tableIndex random ws"
  assumes "tables \<noteq> []"
    and "\<forall>t \<in> set tables. 0 \<le> score_of ms (op, t) \<and> score_of ms (op, t) \<le> 10"
    and "0 \<le> r" "r \<le> 1 - 1 / 2 ^ 53"
  shows "length ws = length tables \<and>
         (\<forall>i < length tables.
            ws ! i = 11 - score_of ms (op, tables ! i) \<and> 1 \<le> ws ! i \<and> ws ! i \<le> 11) \<and>
         totalWeight ws = sum_list ws \<and>
         0 \<le> random \<and> random < real_of_int (totalWeight ws) \<and>
         k < length tables \<and>
         random - real_of_int (sum_list (take (Suc k) ws)) \<le> 0 \<and>
         (\<forall>j < k. 0 < random - real_of_int (sum_list (take (Suc j) ws))) \<and>
         pickTable cfg ms op r = tables ! k"
proof -
  have len: "length ws = length tables" by (simp add: ws_def weights_def)
  have wi: "\<forall>i < length tables.
            ws ! i = 11 - score_of ms (op, tables ! i) \<and> 1 \<le> ws ! i \<and> ws ! i \<le> 11"
  proof (intro allI impI)
    fix i assume i: "i < length tables"
    then have "tables ! i \<in> set tables" by simp
    with assms(6) have "0 \<le> score_of ms (op, tables ! i) \<and> score_of ms (op, tables ! i) \<le> 10"
      by blast
    with i show "ws ! i = 11 - score_of ms (op, tables ! i) \<and> 1 \<le> ws ! i \<and> ws ! i \<le> 11"
      by (simp add: ws_def weights_def)
  qed
  have tot: "totalWeight ws = sum_list ws" by (rule totalWeight_sum)
  have pos: "0 < sum_list ws"
    unfolding ws_def using assms(5,6) by (intro sum_list_weights_pos) auto
  then have one: "1 \<le> real_of_int (sum_list ws)" by simp
  have "0 \<le> r * real_of_int (sum_list ws)" using assms(7) pos by simp
  then have r0: "0 \<le> random" unfolding random_def tot by (rule double_nonneg)
  have r1: "random < real_of_int (totalWeight ws)"
    unfolding random_def tot by (rule double_below[OF assms(7,8) one])
  have ne: "ws \<noteq> []" using assms(5) len by auto
  from walk_total[OF ne] r1 tot obtain i where w: "walk random ws 0 = Some i" by auto
  then have "k = i" by (simp add: k_def tableIndex_def)
  with w have wk: "walk random ws 0 = Some k" by simp
  from walk_Some[OF wk] have "k < length ws" by simp
  with len have k1: "k < length tables" by simp
  from walk_Some[OF wk] have k2: "random - real_of_int (sum_list (take (Suc k) ws)) \<le> 0"
    by simp
  from walk_Some[OF wk] have k3: "\<forall>j < k. 0 < random - real_of_int (sum_list (take (Suc j) ws))"
    by simp
  have pt: "pickTable cfg ms op r = tables ! k"
    by (simp add: pickTable_def Let_def tables_def ws_def random_def k_def)
  show ?thesis using len wi tot r0 r1 k1 k2 k3 pt by blast
qed

lemma handleAnswer_open:
  assumes "r_currentExercise r = Some e" "r_feedback r = None"
  shows "handleAnswer r answer st =
     st\<lparr>timerRef := None,
        feedback := Some (if isCorrect answer e then Correct else Incorrect),
        mastery := updateMastery (ex_op e, tableKey (r_settings r) e) (isCorrect answer e) (mastery st),
        stats := \<lparr>stats_correct = stats_correct (r_stats r) + (if isCorrect answer e then 1 else 0),
                  stats_total = stats_total (r_stats r) + 1\<rparr>,
        history := history st @ [(e, isCorrect answer e)],
        timeout := Some (\<lparr>stats_correct = stats_correct (r_stats r) + (if isCorrect answer e then 1 else 0),
                  stats_total = stats_total (r_stats r) + 1\<rparr>, r)\<rparr>"
  using assms by (simp add: handleAnswer_def Let_def)

lemma handleAnswer_guard:
  "r_currentExercise r = None \<or> r_feedback r \<noteq> None \<Longrightarrow> handleAnswer r answer st = st"
  by (auto simp: handleAnswer_def split: option.splits)

text \<open>
  C3. When \<open>handleAnswer\<close> scores an exercise whose credited key has a score \<open>s\<close> from 0 to 10,
  the new score of that key is \<open>min 10 (s + 1)\<close> for a correct answer and \<open>max 0 (s - 1)\<close>
  otherwise, and lies from 0 to 10. A \<open>null\<close> answer (the time-out) is never correct, and a
  missing key has score 0.
\<close>

theorem mastery_update_in_range:
  assumes "r_currentExercise r = Some e" "r_feedback r = None"
    and "key = (ex_op e, tableKey (r_settings r) e)"
    and "0 \<le> score_of (mastery st) key" "score_of (mastery st) key \<le> 10"
  shows "mastery (handleAnswer r answer st) key =
           Some (if isCorrect answer e then min 10 (score_of (mastery st) key + 1)
                 else max 0 (score_of (mastery st) key - 1)) \<and>
         0 \<le> score_of (mastery (handleAnswer r answer st)) key \<and>
         score_of (mastery (handleAnswer r answer st)) key \<le> 10 \<and>
         \<not> isCorrect None e \<and>
         (mastery st key = None \<longrightarrow> score_of (mastery st) key = 0)"
  using assms(3-5)
  by (simp add: handleAnswer_open[OF assms(1,2)] updateMastery_def Let_def score_of_def isCorrect_def)

text \<open>
  C7. \<open>handleAnswer\<close> changes the mastery at one key: the operation of the exercise together
  with, for a multiplication, \<open>a\<close> if \<open>a\<close> is in \<open>multiplicationTables\<close> and \<open>b\<close> otherwise, and
  for a division, \<open>b\<close>.
\<close>

theorem credited_table:
  fixes r :: closure and e :: exercise
  assumes "r_currentExercise r = Some e" "r_feedback r = None"
  defines "credited \<equiv>
     (case ex_op e of
        Multiplication \<Rightarrow>
          if ex_a e \<in> set (multiplicationTables (r_settings r)) then ex_a e else ex_b e
      | Division \<Rightarrow> ex_b e)"
  shows "\<exists>v. mastery (handleAnswer r answer st) = (mastery st)((ex_op e, credited) \<mapsto> v)"
  by (cases "ex_op e")
     (auto simp: handleAnswer_open[OF assms(1,2)] updateMastery_def Let_def tableKey_def credited_def)

lemma decimal_digit_code:
  assumes "isRadixDigit 10 c"
  shows "48 \<le> (of_char c :: nat) \<and> (of_char c :: nat) \<le> 57"
  using assms by (auto simp: isRadixDigit_def digitValue_def Let_def split: if_splits)

lemma decimal_digit_plain:
  assumes "isRadixDigit 10 c"
  shows "\<not> isWhiteSpace c" "c \<noteq> CHR ''+''" "c \<noteq> CHR ''-''"
  using decimal_digit_code[OF assms] by (auto simp: isWhiteSpace_def)

lemma takeWhile_digits:
  assumes "\<forall>c \<in> set ds. P c" "rest = [] \<or> \<not> P (hd rest)"
  shows "takeWhile P (ds @ rest) = ds"
proof -
  have "takeWhile P rest = []" using assms(2) by (cases rest) auto
  with assms(1) show ?thesis by (simp add: takeWhile_append2)
qed

lemma parseInt_decimal_prefix:
  assumes "ds \<noteq> []" "\<forall>c \<in> set ds. isRadixDigit 10 c"
    and "rest = [] \<or> \<not> isRadixDigit 10 (hd rest)"
    and "\<not> hexPrefix (ds @ rest)"
  shows "parseInt (ds @ rest) = Some (int (digitsValue 10 ds))"
proof -
  obtain d ds' where ds: "ds = d # ds'" using assms(1) by (cases ds) auto
  with assms(2) have d: "isRadixDigit 10 d" by simp
  note p = decimal_digit_plain[OF d]
  have S: "dropWhile isWhiteSpace (ds @ rest) = ds @ rest" using p(1) ds by simp
  have hd: "hd (ds @ rest) = d" "ds @ rest \<noteq> []" using ds by simp_all
  have Z: "takeWhile (isRadixDigit 10) (ds @ rest) = ds"
    by (rule takeWhile_digits[OF assms(2,3)])
  show ?thesis
    using assms(1,4) p(2,3) by (simp add: parseInt_def S hd Z Let_def)
qed


lemma unit_rnd_half: "unit_source rnd_half"
  by (simp add: unit_source_def rnd_half_def)

lemma unit_rnd_compound: "unit_source rnd_compound"
  by (simp add: unit_source_def rnd_compound_def)

lemma feedback_handleAnswer:
  assumes "r_currentExercise r = Some e" "r_feedback r = None"
  shows "feedback (handleAnswer r answer st) = Some (if isCorrect answer e then Correct else Incorrect)"
  by (simp add: handleAnswer_open[OF assms])

text \<open>
  C10 as stated fails for a result of 0: the answer \<^verbatim>\<open>0x1\<close> starts with the decimal digit 0,
  followed by a character that is not a digit, but \<open>parseInt\<close> reads it as hexadecimal 1, and
  the answer is judged incorrect.
\<close>

theorem hex_answer_counterexample:
  "isRadixDigit 10 CHR ''0'' \<and> \<not> isRadixDigit 10 CHR ''x'' \<and>
   int (digitsValue 10 ''0'') = ex_result five_times_zero \<and>
   parseInt ''0x1'' = Some 1 \<and>
   feedback (handleAnswer (render ((fresh multiplication_5)\<lparr>currentExercise := Some five_times_zero\<rparr>))
               (Some ''0x1'')
               ((fresh multiplication_5)\<lparr>currentExercise := Some five_times_zero\<rparr>))
     = Some Incorrect"
proof -
  have p: "parseInt ''0x1'' = Some 1" by code_simp
  have d: "isRadixDigit 10 CHR ''0''" "\<not> isRadixDigit 10 CHR ''x''"
    "int (digitsValue 10 ''0'') = ex_result five_times_zero"
    by code_simp+
  have "feedback (handleAnswer (render ((fresh multiplication_5)\<lparr>currentExercise := Some five_times_zero\<rparr>))
               (Some ''0x1'')
               ((fresh multiplication_5)\<lparr>currentExercise := Some five_times_zero\<rparr>))
     = Some Incorrect"
    by (subst feedback_handleAnswer[where e = five_times_zero])
       (simp_all add: render_def fresh_def isCorrect_def p five_times_zero_def)
  with p d show ?thesis by blast
qed

text \<open>
  C10, as amended. An answer string is judged correct exactly when \<open>parseInt\<close> of it equals
  \<open>result\<close>, and \<open>handleSubmit\<close> passes every non-empty input on to that judgement. A string that starts with decimal digits whose value is \<open>result\<close>, followed by
  nothing or by a character that is not a decimal digit, is judged correct, unless the
  string starts with \<^verbatim>\<open>0x\<close> or \<^verbatim>\<open>0X\<close>.
\<close>

theorem answer_judged_by_parseInt:
  assumes "r_currentExercise r = Some e" "r_feedback r = None"
  shows "((feedback (handleAnswer r (Some s) st) = Some Correct) = (parseInt s = Some (ex_result e))) \<and>
         (userAnswer st \<noteq> [] \<longrightarrow>
            handleSubmit st = handleAnswer (render st) (Some (userAnswer st)) st) \<and>
         (\<forall>ds rest.
            ds \<noteq> [] \<and> (\<forall>c \<in> set ds. isRadixDigit 10 c) \<and>
            (rest = [] \<or> \<not> isRadixDigit 10 (hd rest)) \<and> \<not> hexPrefix (ds @ rest) \<and>
            int (digitsValue 10 ds) = ex_result e \<longrightarrow>
            feedback (handleAnswer r (Some (ds @ rest)) st) = Some Correct)"
proof -
  have iff: "(feedback (handleAnswer r (Some s') st) = Some Correct) = (parseInt s' = Some (ex_result e))"
    for s'
    by (simp add: feedback_handleAnswer[OF assms] isCorrect_def)
  have "feedback (handleAnswer r (Some (ds @ rest)) st) = Some Correct"
    if "ds \<noteq> []" "\<forall>c \<in> set ds. isRadixDigit 10 c"
      "rest = [] \<or> \<not> isRadixDigit 10 (hd rest)" "\<not> hexPrefix (ds @ rest)"
      "int (digitsValue 10 ds) = ex_result e" for ds rest
    using parseInt_decimal_prefix[OF that(1-4)] that(5) by (simp add: iff)
  moreover have "userAnswer st \<noteq> [] \<longrightarrow>
      handleSubmit st = handleAnswer (render st) (Some (userAnswer st)) st"
    by (simp add: handleSubmit_def)
  ultimately show ?thesis using iff by blast
qed

theorem answer_judged_by_parseInt_witness:
  "feedback (handleSubmit ((fresh multiplication_5)
       \<lparr>currentExercise := Some \<lparr>ex_a = 6, ex_b = 2, ex_op = Multiplication, ex_result = 12,
            ex_display = None, ex_isChallenge = False\<rparr>,
        userAnswer := ''12abc''\<rparr>)) = Some Correct"
proof -
  let ?e = "\<lparr>ex_a = 6, ex_b = 2, ex_op = Multiplication, ex_result = 12,
            ex_display = None, ex_isChallenge = False\<rparr>"
  let ?st = "(fresh multiplication_5)\<lparr>currentExercise := Some ?e, userAnswer := ''12abc''\<rparr>"
  have h1: "r_currentExercise (render ?st) = Some ?e" by (simp add: render_def)
  have h2: "r_feedback (render ?st) = None" by (simp add: render_def fresh_def)
  have p: "parseInt ''12abc'' = Some (ex_result ?e)" by code_simp
  have u: "userAnswer ?st = ''12abc''" by simp
  from answer_judged_by_parseInt[OF h1 h2, of "''12abc''" ?st] p
  have "feedback (handleAnswer (render ?st) (Some ''12abc'') ?st) = Some Correct" by blast
  then show ?thesis by (simp add: handleSubmit_def)
qed















lemma ticks_before_expiry:
  assumes "timerRef st = Some r" "timeLeft st = 15"
  shows "n \<le> 299 \<Longrightarrow> (tick ^^ n) st = st\<lparr>timeLeft := 15 - real n * 0.05\<rparr>"
proof (induction n)
  case 0
  then show ?case using assms(2) by simp
next
  case (Suc n)
  then have ih: "(tick ^^ n) st = st\<lparr>timeLeft := 15 - real n * 0.05\<rparr>" and n: "n < 299"
    by simp_all
  have late: "\<not> 15 - real n * 0.05 \<le> (0.05 :: real)" using n by simp
  have "(tick ^^ Suc n) st = tick (st\<lparr>timeLeft := 15 - real n * 0.05\<rparr>)"
    by (simp only: funpow.simps o_apply ih)
  also have "\<dots> = st\<lparr>timeLeft := 15 - real n * 0.05 - 0.05\<rparr>"
    using assms(1) late by (simp add: tick_def)
  also have "15 - real n * 0.05 - 0.05 = 15 - real (Suc n) * 0.05" by (simp add: field_simps)
  finally show ?case .
qed

lemma timer_expiry:
  assumes "timerRef st = Some r" "timeLeft st = 15"
  shows "(tick ^^ 300) st = (handleAnswer r None (st\<lparr>timeLeft := 0.05, timerRef := None\<rparr>))\<lparr>timeLeft := 0\<rparr>"
proof -
  have "(300::nat) = Suc 299" by simp
  then have a: "(tick ^^ 300) st = tick ((tick ^^ 299) st)"
    by (simp only: funpow.simps o_apply)
  have "(tick ^^ 299) st = st\<lparr>timeLeft := 15 - real (299::nat) * 0.05\<rparr>"
    by (rule ticks_before_expiry[OF assms]) simp
  moreover have "15 - real (299::nat) * 0.05 = (0.05::real)" by simp
  ultimately have b: "(tick ^^ 299) st = st\<lparr>timeLeft := 0.05\<rparr>" by simp
  have c: "tick (st\<lparr>timeLeft := 0.05\<rparr>) =
      (handleAnswer r None (st\<lparr>timeLeft := 0.05, timerRef := None\<rparr>))\<lparr>timeLeft := 0\<rparr>"
    using assms(1) by (simp add: tick_def)
  show ?thesis by (simp only: a b c)
qed


lemma first_timer_closure:
  assumes "availableOps (settings st) \<noteq> []"
  shows "timerRef (startPractice rnd st) = Some (render st)" "timeLeft (startPractice rnd st) = 15"
  using assms by (auto simp: startPractice_def startTimer_def Let_def availableOps_def split: if_splits)

lemma first_question_expiry:
  assumes "availableOps (settings st) \<noteq> []" "currentExercise st = None \<or> feedback st \<noteq> None"
  shows "(tick ^^ 300) (startPractice rnd st) = (startPractice rnd st)\<lparr>timeLeft := 0, timerRef := None\<rparr>"
proof -
  have g: "r_currentExercise (render st) = None \<or> r_feedback (render st) \<noteq> None"
    using assms(2) by (simp add: render_def)
  show ?thesis
    by (simp add: timer_expiry[OF first_timer_closure[OF assms(1)]] handleAnswer_guard[OF g])
qed

text \<open>
  C8 fails on the first question. A freshly loaded component with multiplication table 5
  starts practice and shows \<open>5 x 1\<close>; the interval runs 300 times without an answer. Its
  callback calls the \<open>handleAnswer\<close> of the render in which the start button was pressed,
  whose \<open>currentExercise\<close> is \<open>null\<close>, so the guard returns: no feedback, no change of the
  statistics, the history or the mastery, and no delayed callback. (300 runs is the count in
  exact arithmetic; the outcome does not depend on it.)
\<close>

theorem first_question_timeout_not_scored:
  "currentExercise (startPractice rnd_alt (fresh multiplication_5)) =
     Some \<lparr>ex_a = 5, ex_b = 1, ex_op = Multiplication, ex_result = 5,
           ex_display = None, ex_isChallenge = False\<rparr> \<and>
   timeLeft ((tick ^^ 300) (startPractice rnd_alt (fresh multiplication_5))) = 0 \<and>
   timerRef ((tick ^^ 300) (startPractice rnd_alt (fresh multiplication_5))) = None \<and>
   feedback ((tick ^^ 300) (startPractice rnd_alt (fresh multiplication_5))) = None \<and>
   stats ((tick ^^ 300) (startPractice rnd_alt (fresh multiplication_5)))
     = \<lparr>stats_correct = 0, stats_total = 0\<rparr> \<and>
   history ((tick ^^ 300) (startPractice rnd_alt (fresh multiplication_5))) = [] \<and>
   mastery ((tick ^^ 300) (startPractice rnd_alt (fresh multiplication_5))) (Multiplication, 5) = None \<and>
   timeout ((tick ^^ 300) (startPractice rnd_alt (fresh multiplication_5))) = None"
proof -
  have a: "availableOps (settings (fresh multiplication_5)) \<noteq> []"
    by (simp add: fresh_def multiplication_5_def availableOps_def)
  have n: "currentExercise (fresh multiplication_5) = None \<or> feedback (fresh multiplication_5) \<noteq> None"
    by (simp add: fresh_def)
  have e: "currentExercise (startPractice rnd_alt (fresh multiplication_5)) =
     Some \<lparr>ex_a = 5, ex_b = 1, ex_op = Multiplication, ex_result = 5,
           ex_display = None, ex_isChallenge = False\<rparr>"
    by code_simp
  show ?thesis
    unfolding first_question_expiry[OF a n] using e
    by (simp add: startPractice_def startTimer_def fresh_def multiplication_5_def Let_def)
qed

lemma later_question_expiry:
  assumes "currentExercise st = Some e" "feedback st = None" "userAnswer st \<noteq> []"
    and "stats_total (stats st) + 1 < 10"
  shows "(tick ^^ 300) (advance rnd (handleSubmit st)) =
         (handleAnswer (render st) None
            ((advance rnd (handleSubmit st))\<lparr>timeLeft := 0.05, timerRef := None\<rparr>))\<lparr>timeLeft := 0\<rparr>"
proof -
  have r: "r_currentExercise (render st) = Some e" "r_feedback (render st) = None"
    using assms(1,2) by (simp_all add: render_def)
  have s: "r_stats (render st) = stats st" by (simp add: render_def)
  have t: "timerRef (advance rnd (handleSubmit st)) = Some (render st)"
    "timeLeft (advance rnd (handleSubmit st)) = 15"
    using assms(3,4)
    by (simp_all add: handleSubmit_def handleAnswer_open[OF r] s advance_def startTimer_def Let_def)
  show ?thesis by (rule timer_expiry[OF t])
qed

lemma later_question_timeout:
  fixes st :: app and rnd :: random_source
  assumes "currentExercise st = Some e" "feedback st = None" "userAnswer st \<noteq> []"
    and "stats_total (stats st) + 1 < 10"
  defines "st' \<equiv> (tick ^^ 300) (advance rnd (handleSubmit st))"
  shows "history st' = history st @ [(e, isCorrect (Some (userAnswer st)) e), (e, False)]"
    and "stats st' = \<lparr>stats_correct = stats_correct (stats st), stats_total = stats_total (stats st) + 1\<rparr>"
    and "feedback st' = Some Incorrect"
    and "currentExercise st' = generateExercise (settings st) (mastery st) (Some e) rnd"
proof -
  have r: "r_currentExercise (render st) = Some e" "r_feedback (render st) = None"
    using assms(1,2) by (simp_all add: render_def)
  have s: "r_stats (render st) = stats st" "r_settings (render st) = settings st"
    "r_mastery (render st) = mastery st"
    by (simp_all add: render_def)
  have n: "\<not> isCorrect None e" by (simp add: isCorrect_def)
  note x = later_question_expiry[OF assms(1-4), of rnd, folded st'_def]
  show "history st' = history st @ [(e, isCorrect (Some (userAnswer st)) e), (e, False)]"
    using assms(3,4)
    by (simp add: x handleAnswer_open[OF r] n handleSubmit_def advance_def s startTimer_def Let_def)
  show "stats st' = \<lparr>stats_correct = stats_correct (stats st), stats_total = stats_total (stats st) + 1\<rparr>"
    by (simp add: x handleAnswer_open[OF r] n s)
  show "feedback st' = Some Incorrect"
    by (simp add: x handleAnswer_open[OF r] n)
  show "currentExercise st' = generateExercise (settings st) (mastery st) (Some e) rnd"
    using assms(3,4)
    by (simp add: x handleAnswer_open[OF r] n handleSubmit_def advance_def s r(1) startTimer_def Let_def)
qed


text \<open>
  On a later question the callback of the interval holds the closure of the render that
  showed the question before. In the same session, after the correct answer 5 to \<open>5 x 1\<close>
  the question is \<open>2 x 5\<close>; when its time runs out, \<open>5 x 1\<close> is scored a second time, as
  incorrect, and \<open>stats\<close> is computed from the statistics of that earlier render: it goes from
  1 of 1 to 0 of 1.
\<close>

theorem second_question_timeout_scores_first:
  "currentExercise (typeAnswer ''5'' (startPractice rnd_alt (fresh multiplication_5))) =
     Some \<lparr>ex_a = 5, ex_b = 1, ex_op = Multiplication, ex_result = 5,
           ex_display = None, ex_isChallenge = False\<rparr> \<and>
   stats (advance rnd_alt (handleSubmit (typeAnswer ''5'' (startPractice rnd_alt (fresh multiplication_5)))))
     = \<lparr>stats_correct = 1, stats_total = 1\<rparr> \<and>
   currentExercise ((tick ^^ 300)
      (advance rnd_alt (handleSubmit (typeAnswer ''5'' (startPractice rnd_alt (fresh multiplication_5))))))
     = Some \<lparr>ex_a = 2, ex_b = 5, ex_op = Multiplication, ex_result = 10,
           ex_display = None, ex_isChallenge = False\<rparr> \<and>
   history ((tick ^^ 300)
      (advance rnd_alt (handleSubmit (typeAnswer ''5'' (startPractice rnd_alt (fresh multiplication_5))))))
     = [(\<lparr>ex_a = 5, ex_b = 1, ex_op = Multiplication, ex_result = 5,
           ex_display = None, ex_isChallenge = False\<rparr>, True),
        (\<lparr>ex_a = 5, ex_b = 1, ex_op = Multiplication, ex_result = 5,
           ex_display = None, ex_isChallenge = False\<rparr>, False)] \<and>
   stats ((tick ^^ 300)
      (advance rnd_alt (handleSubmit (typeAnswer ''5'' (startPractice rnd_alt (fresh multiplication_5))))))
     = \<lparr>stats_correct = 0, stats_total = 1\<rparr>"
proof -
  let ?e = "\<lparr>ex_a = 5, ex_b = 1, ex_op = Multiplication, ex_result = 5,
           ex_display = None, ex_isChallenge = False\<rparr>"
  let ?st = "typeAnswer ''5'' (startPractice rnd_alt (fresh multiplication_5))"
  have e: "currentExercise ?st = Some ?e" by code_simp
  have f: "feedback ?st = None" by code_simp
  have u: "userAnswer ?st \<noteq> []" by code_simp
  have t: "stats_total (stats ?st) + 1 < 10" by code_simp
  have s: "stats ?st = \<lparr>stats_correct = 0, stats_total = 0\<rparr>" by code_simp
  have h: "history ?st = []" by code_simp
  have c: "isCorrect (Some (userAnswer ?st)) ?e" by code_simp
  have s2: "stats (advance rnd_alt (handleSubmit ?st)) = \<lparr>stats_correct = 1, stats_total = 1\<rparr>"
    by code_simp
  have g: "generateExercise (settings ?st) (mastery ?st) (Some ?e) rnd_alt
     = Some \<lparr>ex_a = 2, ex_b = 5, ex_op = Multiplication, ex_result = 10,
           ex_display = None, ex_isChallenge = False\<rparr>"
    by code_simp
  note l = later_question_timeout[OF e f u t, of rnd_alt]
  show ?thesis using e s2 l(1,2,4) c g h s by simp
qed

lemma single_division_table_exhausted:
  assumes "unit_source rnd" "multiplicationTables cfg = []" "divisionTables cfg = [t]"
    and "ex_b p = t"
  shows "generateExercise cfg ms (Some p) rnd = None"
proof -
  have av: "availableOps cfg = [Division]" using assms(2,3) by (simp add: availableOps_def)
  have "\<not> accepted (Some p) (fst (candidate cfg ms rnd j))" for j
  proof -
    have "pickOp cfg rnd j \<in> set (availableOps cfg)"
      by (rule pickOp_available[OF assms(1)]) (simp add: av)
    then have "pickOp cfg rnd j = Division" by (simp add: av)
    then have "ex_op (fst (candidate cfg ms rnd j)) = Division"
      using divisionExercise_facts(1)[OF assms(1)] by (simp add: candidate_def Let_def)
    from candidate_facts(1)[OF assms(1) _ this] av assms(3,4)
    show ?thesis by (simp add: accepted_def)
  qed
  then have "attemptLoop 20 cfg ms (Some p) rnd 0 = None" by (rule attemptLoop_rejected)
  then show ?thesis by (simp add: generateExercise_def)
qed

text \<open>
  C2 fails. With the single division table 3 and the previous exercise \<open>6 : 3 = 2\<close>, the
  candidate \<open>15 : 3 = 5\<close> differs from it in \<open>a\<close> and in \<open>result\<close> and is rejected, because
  \<open>b\<close> is the same; every candidate has that \<open>b\<close>, and \<open>generateExercise\<close> returns \<open>null\<close>.
\<close>

theorem differing_candidate_rejected:
  "fst (candidate division_3 Map.empty rnd_half 0) =
     \<lparr>ex_a = 15, ex_b = 3, ex_op = Division, ex_result = 5,
      ex_display = None, ex_isChallenge = False\<rparr> \<and>
   ex_a (fst (candidate division_3 Map.empty rnd_half 0)) \<noteq> ex_a six_by_three \<and>
   ex_result (fst (candidate division_3 Map.empty rnd_half 0)) \<noteq> ex_result six_by_three \<and>
   \<not> accepted (Some six_by_three) (fst (candidate division_3 Map.empty rnd_half 0)) \<and>
   generateExercise division_3 Map.empty (Some six_by_three) rnd_half = None"
proof -
  have c: "fst (candidate division_3 Map.empty rnd_half 0) =
     \<lparr>ex_a = 15, ex_b = 3, ex_op = Division, ex_result = 5,
      ex_display = None, ex_isChallenge = False\<rparr>"
    by code_simp
  have g: "generateExercise division_3 Map.empty (Some six_by_three) rnd_half = None"
    by (rule single_division_table_exhausted[OF unit_rnd_half, where t = 3])
       (simp_all add: division_3_def six_by_three_def)
  show ?thesis using g by (simp add: c accepted_def six_by_three_def)
qed

text \<open>
  C9. With a non-empty table list and no previous exercise, \<open>generateExercise\<close> returns the
  first candidate of the loop; so it returns \<open>None\<close> (the twenty attempts used up) only when a
  previous exercise is given.
\<close>

theorem generate_without_previous:
  assumes "multiplicationTables cfg \<noteq> [] \<or> divisionTables cfg \<noteq> []"
  shows "generateExercise cfg ms None rnd = Some (fst (candidate cfg ms rnd 0)) \<and>
         (\<forall>previous. generateExercise cfg ms previous rnd = None \<longrightarrow> previous \<noteq> None)"
proof -
  have "availableOps cfg \<noteq> []" using assms by (auto simp: availableOps_def)
  moreover have "attemptLoop 20 cfg ms None rnd 0 = Some (fst (candidate cfg ms rnd 0))"
    using attemptLoop_first[of None cfg ms rnd 0 19] by (simp add: accepted_def)
  ultimately have g: "generateExercise cfg ms None rnd = Some (fst (candidate cfg ms rnd 0))"
    by (simp add: generateExercise_def)
  have "previous \<noteq> None" if "generateExercise cfg ms previous rnd = None" for previous
  proof
    assume "previous = None"
    with that g show False by simp
  qed
  with g show ?thesis by blast
qed

theorem generate_without_previous_witness:
  "generateExercise multiplication_5 Map.empty None rnd_alt =
     Some \<lparr>ex_a = 5, ex_b = 1, ex_op = Multiplication, ex_result = 5,
           ex_display = None, ex_isChallenge = False\<rparr>"
proof -
  have h: "multiplicationTables multiplication_5 \<noteq> [] \<or> divisionTables multiplication_5 \<noteq> []"
    by (simp add: multiplication_5_def)
  have c: "fst (candidate multiplication_5 Map.empty rnd_alt 0) =
     \<lparr>ex_a = 5, ex_b = 1, ex_op = Multiplication, ex_result = 5,
           ex_display = None, ex_isChallenge = False\<rparr>"
    by code_simp
  from generate_without_previous[OF h, of Map.empty rnd_alt] c show ?thesis by simp
qed

theorem division_exercise_shape_witness:
  "generateExercise division_3 Map.empty None rnd_half =
     Some \<lparr>ex_a = 15, ex_b = 3, ex_op = Division, ex_result = 5,
           ex_display = None, ex_isChallenge = False\<rparr> \<and>
   (15::int) = 3 * 5 \<and> (3::int) \<in> set (divisionTables division_3) \<and>
   score_of Map.empty (Division, 3) < 3"
proof -
  let ?e = "\<lparr>ex_a = 15, ex_b = 3, ex_op = Division, ex_result = 5,
           ex_display = None, ex_isChallenge = False\<rparr>"
  have z: "0 \<notin> set (divisionTables division_3)" by (simp add: division_3_def)
  have g: "generateExercise division_3 Map.empty None rnd_half = Some ?e" by code_simp
  have o: "ex_op ?e = Division" by simp
  from division_exercise_shape[OF unit_rnd_half z g o] g show ?thesis
    by (simp add: score_of_def)
qed

theorem multiplication_exercise_shape_witness:
  "generateExercise multiplication_5 mastered_5 None rnd_compound =
     Some \<lparr>ex_a = 5, ex_b = 2, ex_op = Multiplication, ex_result = 13,
           ex_display = Some (5, 2, 3), ex_isChallenge = True\<rparr> \<and>
   (13::int) = (5 * 2) + 3 \<and> (5::int) \<in> set (multiplicationTables multiplication_5)"
proof -
  let ?e = "\<lparr>ex_a = 5, ex_b = 2, ex_op = Multiplication, ex_result = 13,
           ex_display = Some (5, 2, 3), ex_isChallenge = True\<rparr>"
  have g: "generateExercise multiplication_5 mastered_5 None rnd_compound = Some ?e" by code_simp
  have o: "ex_op ?e = Multiplication" by simp
  from multiplication_exercise_shape[OF unit_rnd_compound g o] g show ?thesis by simp
qed

theorem weighted_table_selection_witness:
  "weights finished_5 Multiplication (selectedTables multiplication_2_5 Multiplication) = [11, 1] \<and>
   double (8256599316845910 / 2 ^ 53 * real_of_int (totalWeight [11, 1])) = 11 \<and>
   tableIndex 11 [11, 1] = 0 \<and>
   pickTable multiplication_2_5 finished_5 Multiplication (8256599316845910 / 2 ^ 53) = 2 \<and>
   pickTable multiplication_2_5 mastered_2 Multiplication (1 / 2) = 5"
proof -
  have h1: "selectedTables multiplication_2_5 Multiplication \<noteq> []"
    by (simp add: selectedTables_def multiplication_2_5_def)
  have h2: "\<forall>t \<in> set (selectedTables multiplication_2_5 Multiplication).
      0 \<le> score_of finished_5 (Multiplication, t) \<and> score_of finished_5 (Multiplication, t) \<le> 10"
    by (simp add: selectedTables_def multiplication_2_5_def finished_5_def score_of_def)
  have h3: "\<forall>t \<in> set (selectedTables multiplication_2_5 Multiplication).
      0 \<le> score_of mastered_2 (Multiplication, t) \<and> score_of mastered_2 (Multiplication, t) \<le> 10"
    by (simp add: selectedTables_def multiplication_2_5_def mastered_2_def score_of_def)
  have r: "(0::real) \<le> 8256599316845910 / 2 ^ 53" "(8256599316845910::real) / 2 ^ 53 \<le> 1 - 1 / 2 ^ 53"
    "(0::real) \<le> 1 / 2" "(1::real) / 2 \<le> 1 - 1 / 2 ^ 53"
    by simp_all
  have w: "weights finished_5 Multiplication (selectedTables multiplication_2_5 Multiplication) = [11, 1]"
    by code_simp
  have d: "double (8256599316845910 / 2 ^ 53 * real_of_int (totalWeight [11, 1])) = 11"
    by code_simp
  have k: "tableIndex 11 [11, 1] = 0" by code_simp
  have p: "pickTable multiplication_2_5 finished_5 Multiplication (8256599316845910 / 2 ^ 53) = 2"
    "pickTable multiplication_2_5 mastered_2 Multiplication (1 / 2) = 5"
    by code_simp+
  from weighted_table_selection[OF h1 h2 r(1,2)] weighted_table_selection[OF h1 h3 r(3,4)] w d k p
  show ?thesis by simp
qed

theorem mastery_update_in_range_witness:
  "mastery (handleAnswer
      (render ((fresh multiplication_5)\<lparr>currentExercise := Some five_times_two\<rparr>)) None
      ((fresh multiplication_5)\<lparr>currentExercise := Some five_times_two\<rparr>)) (Multiplication, 5) = Some 0 \<and>
   mastery (handleAnswer
      (render ((fresh multiplication_5)\<lparr>currentExercise := Some five_times_two\<rparr>)) (Some ''10'')
      ((fresh multiplication_5)\<lparr>currentExercise := Some five_times_two,
          mastery := [(Multiplication, 5) \<mapsto> 10]\<rparr>)) (Multiplication, 5) = Some 10"
proof -
  let ?st = "(fresh multiplication_5)\<lparr>currentExercise := Some five_times_two\<rparr>"
  let ?st' = "(fresh multiplication_5)\<lparr>currentExercise := Some five_times_two,
          mastery := [(Multiplication, 5) \<mapsto> 10]\<rparr>"
  have h1: "r_currentExercise (render ?st) = Some five_times_two" by (simp add: render_def)
  have h2: "r_feedback (render ?st) = None" by (simp add: render_def fresh_def)
  have k: "(Multiplication, 5) = (ex_op five_times_two, tableKey (r_settings (render ?st)) five_times_two)"
    by (simp add: five_times_two_def tableKey_def render_def fresh_def multiplication_5_def)
  have a: "0 \<le> score_of (mastery ?st) (Multiplication, 5)" "score_of (mastery ?st) (Multiplication, 5) \<le> 10"
    by (simp_all add: fresh_def score_of_def)
  have b: "0 \<le> score_of (mastery ?st') (Multiplication, 5)" "score_of (mastery ?st') (Multiplication, 5) \<le> 10"
    by (simp_all add: score_of_def)
  have c: "isCorrect (Some ''10'') five_times_two" by code_simp
  have s: "score_of (mastery ?st) (Multiplication, 5) = 0" "score_of (mastery ?st') (Multiplication, 5) = 10"
    by (simp_all add: fresh_def score_of_def)
  from mastery_update_in_range[OF h1 h2 k a, of None]
    mastery_update_in_range[OF h1 h2 k b, of "Some ''10''"] c s
  show ?thesis by simp
qed

theorem credited_table_witness:
  "mastery (handleAnswer
      (render ((fresh multiplication_5)\<lparr>currentExercise :=
         Some \<lparr>ex_a = 2, ex_b = 5, ex_op = Multiplication, ex_result = 10,
               ex_display = None, ex_isChallenge = False\<rparr>\<rparr>)) None
      ((fresh multiplication_5)\<lparr>currentExercise :=
         Some \<lparr>ex_a = 2, ex_b = 5, ex_op = Multiplication, ex_result = 10,
               ex_display = None, ex_isChallenge = False\<rparr>\<rparr>))
    = [(Multiplication, 5) \<mapsto> 0]"
proof -
  let ?e = "\<lparr>ex_a = 2, ex_b = 5, ex_op = Multiplication, ex_result = 10,
               ex_display = None, ex_isChallenge = False\<rparr>"
  let ?st = "(fresh multiplication_5)\<lparr>currentExercise := Some ?e\<rparr>"
  have h1: "r_currentExercise (render ?st) = Some ?e" by (simp add: render_def)
  have h2: "r_feedback (render ?st) = None" by (simp add: render_def fresh_def)
  from credited_table[OF h1 h2, of None ?st] obtain v
    where v: "mastery (handleAnswer (render ?st) None ?st) = (mastery ?st)((Multiplication, 5) \<mapsto> v)"
    by (auto simp: render_def fresh_def multiplication_5_def)
  have "mastery (handleAnswer (render ?st) None ?st) (Multiplication, 5) = Some 0"
    by code_simp
  with v have "v = 0" by simp
  with v show ?thesis by (simp add: fresh_def)
qed

end
